theory Spec2Isabelle
  imports Complex_Main "HOL-Library.Word"
begin

section \<open>RobotTrajectory: a sequence of waypoints and the durations between them\<close>

text \<open>
  The class \<open>robot_trajectory::RobotTrajectory\<close> of
  \<open>moveit_core/robot_trajectory/include/moveit/robot_trajectory/robot_trajectory.h\<close>
  keeps two double-ended queues side by side: \<open>waypoints_\<close>, of shared pointers to robot
  states, and \<open>duration_from_previous_\<close>, of doubles. This theory embeds the inline member
  functions of the header that read and write the two queues.

  Conventions of the embedding.
  \<^item> \<open>std::size_t\<close> is a 64-bit word: \<open>index + 1\<close> wraps around at \<open>SIZE_MAX\<close>.
  \<^item> A \<open>std::deque\<close> is a list, its \<open>size()\<close> the length of the list.
  \<^item> \<open>resize\<close>, whose size the caller's index sets, grows a queue only as far as the
    standard library and the allocator let it: a call takes the \<open>allocator\<close> it runs with,
    and throws where the library throws. Growing a queue by one entry (\<open>push_back\<close>,
    \<open>push_front\<close>, \<open>insert\<close>) is taken to succeed.
  \<^item> A \<open>RobotStatePtr\<close> is an optional address, \<open>None\<close> being the null pointer. The robot
    state behind a pointer lives outside the trajectory object, so \<open>state->update()\<close> leaves the
    queues alone; on a null pointer it has no defined behaviour.
  \<^item> A duration is a value of any type with a zero: the functions embedded here store and
    return durations and never compute with them.
  \<^item> A member function returns \<open>Inr\<close> of its result, or \<open>Inl\<close> of the reason why the call has
    no result: a failed \<open>assert\<close>, an exception thrown (\<open>std::length_error\<close>,
    \<open>std::bad_alloc\<close>), or behaviour C++ leaves undefined (an element access or an iterator
    outside the queue, a null pointer dereferenced).
  \<^item> The members are written without the trailing underscore of the source.
\<close>

type_synonym size_t = "64 word"

text \<open>The largest \<open>std::size_t\<close>, \<open>2 ^ 64 - 1\<close>.\<close>

definition SIZE_MAX :: size_t where
  "SIZE_MAX = 18446744073709551615"

datatype error = AssertionFailed | OutOfBounds | NullPointer | LengthError | BadAlloc

text \<open>
  What a growing queue depends on besides its own contents: \<open>max_size()\<close>, a constant of
  the standard library (a \<open>size_type\<close>), and the number of entries for which the allocator can
  deliver storage at the time of the call.
\<close>

record allocator =
  max_size :: size_t
  available :: nat

text \<open>
  \<open>max_size()\<close> of a \<open>std::deque<double>\<close> in libstdc++ on a 64-bit target,
  \<open>PTRDIFF_MAX / sizeof(double) = 2 ^ 60 - 1\<close>. The examples below use it.
\<close>

definition libstdcxx_max_size :: size_t where
  "libstdcxx_max_size = 1152921504606846975"

subsection \<open>The operations of \<open>std::deque\<close> that the class uses\<close>

text \<open>\<open>d[i]\<close> read: defined for \<open>i < d.size()\<close> only.\<close>

definition deque_at :: "'a list \<Rightarrow> nat \<Rightarrow> error + 'a" where
  "deque_at xs i = (if i < length xs then Inr (xs ! i) else Inl OutOfBounds)"

text \<open>\<open>d[i] = v\<close>: defined for \<open>i < d.size()\<close> only.\<close>

definition deque_assign :: "'a list \<Rightarrow> nat \<Rightarrow> 'a \<Rightarrow> error + 'a list" where
  "deque_assign xs i v = (if i < length xs then Inr (xs[i := v]) else Inl OutOfBounds)"

text \<open>
  \<open>d.resize(n, v)\<close>: keeps the first \<open>n\<close> elements, or appends copies of \<open>v\<close> up to size
  \<open>n\<close>. Growing throws \<open>std::length_error\<close> when \<open>n\<close> exceeds \<open>max_size()\<close>, and
  \<open>std::bad_alloc\<close> when the allocator cannot deliver the storage.
\<close>

definition deque_resize :: "allocator \<Rightarrow> 'a list \<Rightarrow> nat \<Rightarrow> 'a \<Rightarrow> error + 'a list" where
  "deque_resize a xs n v =
     (if n \<le> length xs then Inr (take n xs)
      else if unat (max_size a) < n then Inl LengthError
      else if available a < n then Inl BadAlloc
      else Inr (xs @ replicate (n - length xs) v))"

text \<open>\<open>d.insert(d.begin() + i, x)\<close>: the iterator is valid for \<open>i \<le> d.size()\<close> only.\<close>

definition deque_insert :: "'a list \<Rightarrow> nat \<Rightarrow> 'a \<Rightarrow> error + 'a list" where
  "deque_insert xs i x =
     (if i \<le> length xs then Inr (take i xs @ x # drop i xs) else Inl OutOfBounds)"

subsection \<open>The class\<close>

record ('m, 'g, 'p, 'd) RobotTrajectory =
  robot_model :: 'm
  group :: 'g
  waypoints :: "'p option list"
  duration_from_previous :: "'d list"

text \<open>\<open>size() const\<close>, with its assertion enabled.\<close>

definition size_traj ::
  "('m, 'g, 'p, 'd) RobotTrajectory \<Rightarrow> error + size_t \<times> ('m, 'g, 'p, 'd) RobotTrajectory" where
  "size_traj t =
     (if length (waypoints t) = length (duration_from_previous t)
      then Inr (of_nat (length (waypoints t)), t)
      else Inl AssertionFailed)"

text \<open>\<open>getWayPointDurationFromPrevious(index) const\<close>\<close>

definition getWayPointDurationFromPrevious ::
  "('m, 'g, 'p, 'd::zero) RobotTrajectory \<Rightarrow> size_t
     \<Rightarrow> error + 'd \<times> ('m, 'g, 'p, 'd) RobotTrajectory" where
  "getWayPointDurationFromPrevious t index =
     (if length (duration_from_previous t) > unat index
      then (case deque_at (duration_from_previous t) (unat index) of
              Inl e \<Rightarrow> Inl e
            | Inr v \<Rightarrow> Inr (v, t))
      else Inr (0, t))"

text \<open>\<open>setWayPointDurationFromPrevious(index, value)\<close>\<close>

definition setWayPointDurationFromPrevious ::
  "allocator \<Rightarrow> ('m, 'g, 'p, 'd::zero) RobotTrajectory \<Rightarrow> size_t \<Rightarrow> 'd
     \<Rightarrow> error + ('m, 'g, 'p, 'd) RobotTrajectory" where
  "setWayPointDurationFromPrevious a t index v =
     (case (if length (duration_from_previous t) \<le> unat index
            then deque_resize a (duration_from_previous t) (unat (index + 1)) 0
            else Inr (duration_from_previous t)) of
        Inl e \<Rightarrow> Inl e
      | Inr ds \<Rightarrow>
          (case deque_assign ds (unat index) v of
             Inl e \<Rightarrow> Inl e
           | Inr ds' \<Rightarrow> Inr (t\<lparr>duration_from_previous := ds'\<rparr>)))"

text \<open>
  \<open>addSuffixWayPoint(const RobotStatePtr& state, dt)\<close>. The overload taking a
  \<open>const RobotState&\<close> calls this one with the pointer \<open>std::make_shared\<close> returns, which is
  never null; the same holds for the two functions after it.
\<close>

definition addSuffixWayPoint ::
  "('m, 'g, 'p, 'd) RobotTrajectory \<Rightarrow> 'p option \<Rightarrow> 'd
     \<Rightarrow> error + ('m, 'g, 'p, 'd) RobotTrajectory" where
  "addSuffixWayPoint t state dt =
     (case state of
        None \<Rightarrow> Inl NullPointer
      | Some _ \<Rightarrow>
          Inr (t\<lparr>waypoints := waypoints t @ [state],
                 duration_from_previous := duration_from_previous t @ [dt]\<rparr>))"

text \<open>\<open>addPrefixWayPoint(const RobotStatePtr& state, dt)\<close>\<close>

definition addPrefixWayPoint ::
  "('m, 'g, 'p, 'd) RobotTrajectory \<Rightarrow> 'p option \<Rightarrow> 'd
     \<Rightarrow> error + ('m, 'g, 'p, 'd) RobotTrajectory" where
  "addPrefixWayPoint t state dt =
     (case state of
        None \<Rightarrow> Inl NullPointer
      | Some _ \<Rightarrow>
          Inr (t\<lparr>waypoints := state # waypoints t,
                 duration_from_previous := dt # duration_from_previous t\<rparr>))"

text \<open>\<open>insertWayPoint(index, const RobotStatePtr& state, dt)\<close>\<close>

definition insertWayPoint ::
  "('m, 'g, 'p, 'd) RobotTrajectory \<Rightarrow> size_t \<Rightarrow> 'p option \<Rightarrow> 'd
     \<Rightarrow> error + ('m, 'g, 'p, 'd) RobotTrajectory" where
  "insertWayPoint t index state dt =
     (case state of
        None \<Rightarrow> Inl NullPointer
      | Some _ \<Rightarrow>
          (case deque_insert (waypoints t) (unat index) state of
             Inl e \<Rightarrow> Inl e
           | Inr ws \<Rightarrow>
               (case deque_insert (duration_from_previous t) (unat index) dt of
                  Inl e \<Rightarrow> Inl e
                | Inr ds \<Rightarrow> Inr (t\<lparr>waypoints := ws, duration_from_previous := ds\<rparr>))))"

text \<open>\<open>clear()\<close>\<close>

definition clear ::
  "('m, 'g, 'p, 'd) RobotTrajectory \<Rightarrow> error + ('m, 'g, 'p, 'd) RobotTrajectory" where
  "clear t = Inr (t\<lparr>waypoints := [], duration_from_previous := []\<rparr>)"

text \<open>The property that \<open>size()\<close>, \<open>begin()\<close> and \<open>end()\<close> assert.\<close>

definition same_size :: "('m, 'g, 'p, 'd) RobotTrajectory \<Rightarrow> bool" where
  "same_size t = (length (waypoints t) = length (duration_from_previous t))"

section \<open>Facts about the queue operations\<close>

lemma deque_resize_grow:
  assumes "length xs < n" and "n \<le> unat (max_size a)" and "n \<le> available a"
  shows "deque_resize a xs n v = Inr (xs @ replicate (n - length xs) v)"
  using assms by (simp add: deque_resize_def)

lemma length_deque_resize:
  "deque_resize a xs n v = Inr ys \<Longrightarrow> length ys = n"
  by (auto simp: deque_resize_def split: if_splits)

lemma deque_resize_old:
  "deque_resize a xs n v = Inr ys \<Longrightarrow> j < length xs \<Longrightarrow> j < n \<Longrightarrow> ys ! j = xs ! j"
  by (auto simp: deque_resize_def nth_append split: if_splits)

lemma deque_resize_new:
  "deque_resize a xs n v = Inr ys \<Longrightarrow> length xs \<le> j \<Longrightarrow> j < n \<Longrightarrow> ys ! j = v"
  by (auto simp: deque_resize_def nth_append split: if_splits)

lemma length_deque_insert:
  "deque_insert xs i x = Inr ys \<Longrightarrow> length ys = Suc (length xs)"
  by (auto simp: deque_insert_def split: if_splits)

text \<open>\<open>index + 1\<close> does not wrap around when \<open>index\<close> is below some other \<open>size_t\<close>.\<close>

lemma unat_succ_size_t:
  fixes index :: size_t
  assumes "index < m"
  shows "unat (index + 1) = Suc (unat index)"
proof -
  have "1 + index \<noteq> 0"
  proof
    assume "1 + index = 0"
    then have "index = - 1"
      by (simp add: eq_neg_iff_add_eq_0 add.commute)
    with assms show False
      by simp
  qed
  then have "unat (1 + index) = Suc (unat index)"
    by (rule unatSuc)
  then show ?thesis
    by (simp add: add.commute)
qed

section \<open>The size invariant\<close>

text \<open>
  Appending, prepending, inserting and clearing change both queues by the same number of
  elements, so each of them keeps \<open>same_size\<close>.
\<close>

lemma addSuffixWayPoint_same_size:
  "same_size t \<Longrightarrow> addSuffixWayPoint t state dt = Inr t' \<Longrightarrow> same_size t'"
  by (auto simp: addSuffixWayPoint_def same_size_def split: option.splits)

lemma addPrefixWayPoint_same_size:
  "same_size t \<Longrightarrow> addPrefixWayPoint t state dt = Inr t' \<Longrightarrow> same_size t'"
  by (auto simp: addPrefixWayPoint_def same_size_def split: option.splits)

lemma insertWayPoint_same_size:
  assumes "same_size t" and "insertWayPoint t index state dt = Inr t'"
  shows "same_size t'"
proof -
  from assms(2) obtain ws ds
    where ws: "deque_insert (waypoints t) (unat index) state = Inr ws"
      and ds: "deque_insert (duration_from_previous t) (unat index) dt = Inr ds"
      and t': "t' = t\<lparr>waypoints := ws, duration_from_previous := ds\<rparr>"
    by (auto simp: insertWayPoint_def split: option.splits sum.splits)
  from ws have "length ws = Suc (length (waypoints t))"
    by (rule length_deque_insert)
  moreover from ds have "length ds = Suc (length (duration_from_previous t))"
    by (rule length_deque_insert)
  ultimately show ?thesis
    using assms(1) t' by (simp add: same_size_def)
qed

lemma clear_same_size: "clear t = Inr t' \<Longrightarrow> same_size t'"
  by (auto simp: clear_def same_size_def)

text \<open>
  \<open>setWayPointDurationFromPrevious\<close> keeps \<open>same_size\<close> when \<open>index\<close> is the index of a
  duration that exists: then it does not resize.
\<close>

lemma setWayPointDurationFromPrevious_same_size:
  assumes "same_size t" and "unat index < length (duration_from_previous t)"
    and "setWayPointDurationFromPrevious a t index v = Inr t'"
  shows "same_size t'"
  using assms
  by (auto simp: setWayPointDurationFromPrevious_def deque_assign_def same_size_def)

text \<open>
  At any other index, whenever the call returns, it has left the waypoints alone and made
  the durations \<open>index + 1\<close> long: the trajectory it returns has more durations than
  waypoints.
\<close>

lemma setWayPointDurationFromPrevious_not_same_size:
  assumes same: "same_size t" and out: "length (duration_from_previous t) \<le> unat index"
    and ret: "setWayPointDurationFromPrevious a t index v = Inr t'"
  shows "waypoints t' = waypoints t"
    and "length (duration_from_previous t') = unat (index + 1)"
    and "\<not> same_size t'"
proof -
  from out ret obtain ds
    where ds: "deque_resize a (duration_from_previous t) (unat (index + 1)) 0 = Inr ds"
      and inside: "unat index < length ds"
      and t': "t' = t\<lparr>duration_from_previous := ds[unat index := v]\<rparr>"
    by (auto simp: setWayPointDurationFromPrevious_def deque_assign_def
        split: sum.splits if_splits)
  from ds have len: "length ds = unat (index + 1)"
    by (rule length_deque_resize)
  from t' show "waypoints t' = waypoints t"
    by simp
  from t' len show "length (duration_from_previous t') = unat (index + 1)"
    by simp
  from same out inside t' show "\<not> same_size t'"
    by (simp add: same_size_def)
qed

text \<open>
  C1. The claim: every trajectory reached from an empty one by \<open>addSuffixWayPoint\<close>,
  \<open>addPrefixWayPoint\<close>, \<open>insertWayPoint\<close>, \<open>setWayPointDurationFromPrevious\<close> and \<open>clear\<close>
  has as many waypoints as durations, which is what \<open>size()\<close> asserts. On the code, one call
  of \<open>setWayPointDurationFromPrevious(0, 1.0)\<close> on an empty trajectory resizes the durations
  to one entry and leaves the waypoints empty; the assertion of \<open>size()\<close> fails in the
  trajectory it returns. The allocator of the example has storage for that one entry.
\<close>

theorem setWayPointDurationFromPrevious_breaks_size:
  "setWayPointDurationFromPrevious \<lparr>max_size = libstdcxx_max_size, available = 1\<rparr>
     \<lparr>robot_model = (), group = (), waypoints = ([] :: nat option list),
      duration_from_previous = ([] :: real list)\<rparr> 0 1
   = Inr \<lparr>robot_model = (), group = (), waypoints = [], duration_from_previous = [1]\<rparr>
   \<and> size_traj \<lparr>robot_model = (), group = (), waypoints = ([] :: nat option list),
                 duration_from_previous = [1 :: real]\<rparr>
     = Inl AssertionFailed"
  by (simp add: setWayPointDurationFromPrevious_def deque_resize_def deque_assign_def
      size_traj_def libstdcxx_max_size_def)

section \<open>Reading and writing a duration\<close>

text \<open>
  C3. For every trajectory and every index, \<open>getWayPointDurationFromPrevious(index)\<close>
  returns the stored duration at that index when the index is strictly less than the length
  of the duration sequence, and zero otherwise; it never fails (the result is \<open>Inr\<close>) and the
  trajectory after the call is the trajectory before it.
\<close>

theorem getWayPointDurationFromPrevious_result:
  "getWayPointDurationFromPrevious t index =
     Inr (if unat index < length (duration_from_previous t)
          then duration_from_previous t ! unat index else 0, t)"
  by (simp add: getWayPointDurationFromPrevious_def deque_at_def)

text \<open>
  Where \<open>setWayPointDurationFromPrevious\<close> has to resize and the queue cannot grow to
  \<open>index + 1\<close> entries, the exception of \<open>resize\<close> leaves the call.
\<close>

lemma setWayPointDurationFromPrevious_length_error:
  assumes "length (duration_from_previous t) \<le> unat index"
    and "max_size a \<le> index" and "index < SIZE_MAX"
  shows "setWayPointDurationFromPrevious a t index v = Inl LengthError"
proof -
  from assms(3) have "unat (index + 1) = Suc (unat index)"
    by (rule unat_succ_size_t)
  moreover from assms(2) have "unat (max_size a) \<le> unat index"
    by (simp add: word_le_nat_alt)
  ultimately show ?thesis
    using assms(1) by (simp add: setWayPointDurationFromPrevious_def deque_resize_def)
qed

lemma setWayPointDurationFromPrevious_bad_alloc:
  assumes "length (duration_from_previous t) \<le> unat index"
    and "index < max_size a" and "available a \<le> unat index"
  shows "setWayPointDurationFromPrevious a t index v = Inl BadAlloc"
proof -
  from assms(2) have "unat (index + 1) = Suc (unat index)"
    by (rule unat_succ_size_t)
  moreover from assms(2) have "unat index < unat (max_size a)"
    by (simp add: word_less_nat_alt)
  ultimately show ?thesis
    using assms(1,3) by (simp add: setWayPointDurationFromPrevious_def deque_resize_def)
qed

lemma setWayPointDurationFromPrevious_at_2_63:
  "setWayPointDurationFromPrevious \<lparr>max_size = libstdcxx_max_size, available = 1024\<rparr>
     \<lparr>robot_model = (), group = (), waypoints = [Some (0 :: nat)],
      duration_from_previous = [2 :: real]\<rparr> 9223372036854775808 5
   = Inl LengthError"
  by (rule setWayPointDurationFromPrevious_length_error)
    (simp_all add: libstdcxx_max_size_def SIZE_MAX_def)

lemma setWayPointDurationFromPrevious_below_SIZE_MAX:
  "setWayPointDurationFromPrevious \<lparr>max_size = libstdcxx_max_size, available = 1024\<rparr>
     \<lparr>robot_model = (), group = (), waypoints = [Some (0 :: nat)],
      duration_from_previous = [2 :: real]\<rparr> (SIZE_MAX - 1) 5
   = Inl LengthError"
  by (rule setWayPointDurationFromPrevious_length_error)
    (simp_all add: libstdcxx_max_size_def SIZE_MAX_def)

text \<open>
  C2, as claimed: for every trajectory and every index,
  \<open>setWayPointDurationFromPrevious(index, value)\<close> returns a trajectory whose duration at
  \<open>index\<close> is \<open>value\<close>. It fails at \<open>index = SIZE_MAX\<close>: there \<open>index + 1\<close> wraps around to
  0, the resize empties the duration queue, and the assignment to position \<open>index\<close> of the
  empty queue is outside it, so the call returns no trajectory at all.
\<close>

theorem setWayPointDurationFromPrevious_SIZE_MAX:
  "setWayPointDurationFromPrevious \<lparr>max_size = libstdcxx_max_size, available = 1024\<rparr>
     \<lparr>robot_model = (), group = (), waypoints = [Some (0 :: nat)],
      duration_from_previous = [2 :: real]\<rparr> SIZE_MAX 5
   = Inl OutOfBounds"
  by (simp add: setWayPointDurationFromPrevious_def deque_resize_def deque_assign_def
      SIZE_MAX_def)

text \<open>
  C2, amended: for every trajectory, every value and every index that is the position of
  an existing duration, or to which the queue can grow (\<open>index\<close> is below \<open>max_size()\<close> and
  the allocator delivers storage for \<open>index + 1\<close> entries, so that \<open>index + 1\<close> does not
  wrap around and the resize does not throw),
  \<open>setWayPointDurationFromPrevious(index, value)\<close> returns a trajectory in which the
  duration at position \<open>index\<close> is \<open>value\<close>, the duration sequence has length at least
  \<open>index + 1\<close>, the positions from the old length up to \<open>index - 1\<close> hold zero, and every
  duration at a position other than \<open>index\<close> that existed before the call is unchanged.
\<close>

theorem setWayPointDurationFromPrevious_effect:
  assumes "unat index < length (duration_from_previous t)
     \<or> (index < max_size a \<and> unat index < available a)"
  shows "\<exists>t'. setWayPointDurationFromPrevious a t index v = Inr t'
     \<and> duration_from_previous t' ! unat index = v
     \<and> unat index + 1 \<le> length (duration_from_previous t')
     \<and> (\<forall>j. length (duration_from_previous t) \<le> j \<and> j < unat index
            \<longrightarrow> duration_from_previous t' ! j = 0)
     \<and> (\<forall>j. j < length (duration_from_previous t) \<and> j \<noteq> unat index
            \<longrightarrow> duration_from_previous t' ! j = duration_from_previous t ! j)"
proof (cases "length (duration_from_previous t) \<le> unat index")
  case True
  let ?old = "duration_from_previous t"
  let ?ds = "?old @ replicate (Suc (unat index) - length ?old) 0"
  let ?new = "?ds[unat index := v]"
  from True assms have below: "index < max_size a" and room: "unat index < available a"
    by simp_all
  from below have succ: "unat (index + 1) = Suc (unat index)"
    by (rule unat_succ_size_t)
  from below have "unat index < unat (max_size a)"
    by (simp add: word_less_nat_alt)
  with True room
  have grow: "deque_resize a ?old (Suc (unat index)) 0 = Inr ?ds"
    by (intro deque_resize_grow) simp_all
  have len: "length ?ds = Suc (unat index)"
    using True by simp
  from True grow len
  have res: "setWayPointDurationFromPrevious a t index v = Inr (t\<lparr>duration_from_previous := ?new\<rparr>)"
    by (simp add: setWayPointDurationFromPrevious_def deque_assign_def succ)
  have at_index: "?new ! unat index = v"
    using len by simp
  have long: "unat index + 1 \<le> length ?new"
    using len by simp
  have fresh: "?new ! j = 0" if "length ?old \<le> j" and "j < unat index" for j
    using that by (simp add: nth_append)
  have kept: "?new ! j = ?old ! j" if "j < length ?old" and "j \<noteq> unat index" for j
    using that by (simp add: nth_append)
  from res at_index long fresh kept show ?thesis
    by simp
next
  case False
  let ?old = "duration_from_previous t"
  let ?new = "?old[unat index := v]"
  from False
  have res: "setWayPointDurationFromPrevious a t index v = Inr (t\<lparr>duration_from_previous := ?new\<rparr>)"
    by (simp add: setWayPointDurationFromPrevious_def deque_assign_def)
  have at_index: "?new ! unat index = v"
    using False by simp
  have long: "unat index + 1 \<le> length ?new"
    using False by simp
  have no_fresh: "\<not> (length ?old \<le> j \<and> j < unat index)" for j
    using False by simp
  have kept: "?new ! j = ?old ! j" if "j < length ?old" and "j \<noteq> unat index" for j
    using that by simp
  from res at_index long no_fresh kept show ?thesis
    by auto
qed

text \<open>
  The amended statement at a trajectory with one duration and \<open>index = 3\<close>, with storage
  for exactly four entries: the call grows the durations to four entries.
\<close>

theorem setWayPointDurationFromPrevious_effect_witness:
  "((3 :: size_t) < libstdcxx_max_size \<and> unat (3 :: size_t) < (4 :: nat))
   \<and> (\<exists>t'. setWayPointDurationFromPrevious \<lparr>max_size = libstdcxx_max_size, available = 4\<rparr>
          \<lparr>robot_model = (), group = (), waypoints = [Some (0 :: nat)],
           duration_from_previous = [2 :: real]\<rparr> 3 5 = Inr t'
     \<and> duration_from_previous t' ! unat (3 :: size_t) = 5
     \<and> unat (3 :: size_t) + 1 \<le> length (duration_from_previous t')
     \<and> (\<forall>j. length [2 :: real] \<le> j \<and> j < unat (3 :: size_t)
            \<longrightarrow> duration_from_previous t' ! j = 0)
     \<and> (\<forall>j. j < length [2 :: real] \<and> j \<noteq> unat (3 :: size_t)
            \<longrightarrow> duration_from_previous t' ! j = [2 :: real] ! j))"
proof -
  have h: "(3 :: size_t) < libstdcxx_max_size \<and> unat (3 :: size_t) < (4 :: nat)"
    by (simp add: libstdcxx_max_size_def)
  then have h': "unat (3 :: size_t) < length (duration_from_previous
        \<lparr>robot_model = (), group = (), waypoints = [Some (0 :: nat)],
         duration_from_previous = [2 :: real]\<rparr>)
     \<or> ((3 :: size_t) < max_size \<lparr>max_size = libstdcxx_max_size, available = 4\<rparr>
        \<and> unat (3 :: size_t) < available \<lparr>max_size = libstdcxx_max_size, available = 4\<rparr>)"
    by simp
  show ?thesis
    using h setWayPointDurationFromPrevious_effect [OF h', of 5]
    by simp
qed

end
